theory Spec2Isabelle
  imports Complex_Main
begin

section \<open>The interface header \<^verbatim>\<open>coolprop-sys/CoolPropLib.h\<close>\<close>

text \<open>
  The header is a list of C function declarations
  (\<^verbatim>\<open>EXPORT_CODE ret CONVENTION name(params);\<close>) and one inline function with a body,
  \<^verbatim>\<open>__assert\<close>, compiled only when \<^verbatim>\<open>__powerpc__\<close> is defined.
  A declaration is embedded as its return type, its name and its parameters in order;
  the macros \<^verbatim>\<open>EXPORT_CODE\<close> and \<^verbatim>\<open>CONVENTION\<close> only choose linkage and
  calling convention and are left out.
\<close>

datatype ctype = CVoid | CBool | CInt | CLong | CDouble | CChar | Const ctype | Ptr ctype

record fn_decl =
  ret :: ctype
  name :: string
  params :: "(ctype \<times> string) list"
  body :: bool

text \<open>
  Lines 55 to 60: \<^verbatim>\<open>inline void __assert(const char *error) { while (1) ; }\<close>.
  (An Isabelle name cannot start with an underscore, so the constants are called
  \<open>inline_assert\<close>.)
\<close>

definition inline_assert_decl :: fn_decl where
  "inline_assert_decl =
    \<lparr>ret = CVoid, name = ''__assert'', params = [(Ptr (Const CChar), ''error'')], body = True\<rparr>"

text \<open>Lines 62 to 321, in the order of the header.\<close>

definition exported :: "fn_decl list" where
  "exported = [
    \<lparr>ret = CDouble, name = ''Props1SI'',
      params = [(Ptr (Const CChar), ''FluidName''),
        (Ptr (Const CChar), ''Output'')], body = False\<rparr>,
    \<lparr>ret = CVoid, name = ''Props1SImulti'',
      params = [(Ptr (Const CChar), ''Outputs''), (Ptr CChar, ''backend''),
        (Ptr (Const CChar), ''FluidNames''), (Ptr (Const CDouble), ''fractions''),
        (Const CLong, ''length_fractions''), (Ptr CDouble, ''result''),
        (Ptr CLong, ''resdim1'')], body = False\<rparr>,
    \<lparr>ret = CDouble, name = ''PropsSI'',
      params = [(Ptr (Const CChar), ''Output''), (Ptr (Const CChar), ''Name1''),
        (CDouble, ''Prop1''), (Ptr (Const CChar), ''Name2''), (CDouble, ''Prop2''),
        (Ptr (Const CChar), ''FluidName'')], body = False\<rparr>,
    \<lparr>ret = CVoid, name = ''PropsSImulti'',
      params = [(Ptr (Const CChar), ''Outputs''), (Ptr (Const CChar), ''Name1''),
        (Ptr CDouble, ''Prop1''), (Const CLong, ''size_Prop1''), (Ptr (Const CChar), ''Name2''),
        (Ptr CDouble, ''Prop2''), (Const CLong, ''size_Prop2''), (Ptr CChar, ''backend''),
        (Ptr (Const CChar), ''FluidNames''), (Ptr (Const CDouble), ''fractions''),
        (Const CLong, ''length_fractions''), (Ptr CDouble, ''result''), (Ptr CLong, ''resdim1''),
        (Ptr CLong, ''resdim2'')], body = False\<rparr>,
    \<lparr>ret = CLong, name = ''PhaseSI'',
      params = [(Ptr (Const CChar), ''Name1''), (CDouble, ''Prop1''), (Ptr (Const CChar), ''Name2''),
        (CDouble, ''Prop2''), (Ptr (Const CChar), ''FluidName''), (Ptr CChar, ''phase''),
        (CInt, ''n'')], body = False\<rparr>,
    \<lparr>ret = CLong, name = ''get_global_param_string'',
      params = [(Ptr (Const CChar), ''param''), (Ptr CChar, ''Output''),
        (CInt, ''n'')], body = False\<rparr>,
    \<lparr>ret = CLong, name = ''get_parameter_information_string'',
      params = [(Ptr (Const CChar), ''param''), (Ptr CChar, ''Output''),
        (CInt, ''n'')], body = False\<rparr>,
    \<lparr>ret = CLong, name = ''get_fluid_param_string'',
      params = [(Ptr (Const CChar), ''fluid''), (Ptr (Const CChar), ''param''),
        (Ptr CChar, ''Output''), (CInt, ''n'')], body = False\<rparr>,
    \<lparr>ret = CLong, name = ''get_fluid_param_string_len'',
      params = [(Ptr (Const CChar), ''fluid''),
        (Ptr (Const CChar), ''param'')], body = False\<rparr>,
    \<lparr>ret = CVoid, name = ''set_config_string'',
      params = [(Ptr (Const CChar), ''key''), (Ptr (Const CChar), ''val'')], body = False\<rparr>,
    \<lparr>ret = CVoid, name = ''set_config_double'',
      params = [(Ptr (Const CChar), ''key''), (Const CDouble, ''val'')], body = False\<rparr>,
    \<lparr>ret = CVoid, name = ''set_config_bool'',
      params = [(Ptr (Const CChar), ''key''), (Const CBool, ''val'')], body = False\<rparr>,
    \<lparr>ret = CVoid, name = ''set_departure_functions'',
      params = [(Ptr (Const CChar), ''string_data''), (Ptr CLong, ''errcode''),
        (Ptr CChar, ''message_buffer''), (Const CLong, ''buffer_length'')], body = False\<rparr>,
    \<lparr>ret = CInt, name = ''set_reference_stateS'',
      params = [(Ptr (Const CChar), ''Ref''),
        (Ptr (Const CChar), ''reference_state'')], body = False\<rparr>,
    \<lparr>ret = CInt, name = ''set_reference_stateD'',
      params = [(Ptr (Const CChar), ''Ref''), (CDouble, ''T''), (CDouble, ''rhomolar''),
        (CDouble, ''hmolar0''), (CDouble, ''smolar0'')], body = False\<rparr>,
    \<lparr>ret = CVoid, name = ''propssi_'',
      params = [(Ptr (Const CChar), ''Output''), (Ptr (Const CChar), ''Name1''),
        (Ptr (Const CDouble), ''Prop1''), (Ptr (Const CChar), ''Name2''),
        (Ptr (Const CDouble), ''Prop2''), (Ptr (Const CChar), ''FluidName''),
        (Ptr CDouble, ''output'')], body = False\<rparr>,
    \<lparr>ret = CDouble, name = ''F2K'',
      params = [(CDouble, ''T_F'')], body = False\<rparr>,
    \<lparr>ret = CDouble, name = ''K2F'',
      params = [(CDouble, ''T_K'')], body = False\<rparr>,
    \<lparr>ret = CLong, name = ''get_param_index'',
      params = [(Ptr (Const CChar), ''param'')], body = False\<rparr>,
    \<lparr>ret = CLong, name = ''get_input_pair_index'',
      params = [(Ptr (Const CChar), ''pair'')], body = False\<rparr>,
    \<lparr>ret = CLong, name = ''redirect_stdout'',
      params = [(Ptr (Const CChar), ''file'')], body = False\<rparr>,
    \<lparr>ret = CInt, name = ''get_debug_level'',
      params = [], body = False\<rparr>,
    \<lparr>ret = CVoid, name = ''set_debug_level'',
      params = [(CInt, ''level'')], body = False\<rparr>,
    \<lparr>ret = CDouble, name = ''saturation_ancillary'',
      params = [(Ptr (Const CChar), ''fluid_name''), (Ptr (Const CChar), ''output''), (CInt, ''Q''),
        (Ptr (Const CChar), ''input''), (CDouble, ''value'')], body = False\<rparr>,
    \<lparr>ret = CDouble, name = ''HAPropsSI'',
      params = [(Ptr (Const CChar), ''Output''), (Ptr (Const CChar), ''Name1''),
        (CDouble, ''Prop1''), (Ptr (Const CChar), ''Name2''), (CDouble, ''Prop2''),
        (Ptr (Const CChar), ''Name3''), (CDouble, ''Prop3'')], body = False\<rparr>,
    \<lparr>ret = CDouble, name = ''cair_sat'',
      params = [(CDouble, ''T'')], body = False\<rparr>,
    \<lparr>ret = CVoid, name = ''hapropssi_'',
      params = [(Ptr (Const CChar), ''Output''), (Ptr (Const CChar), ''Name1''),
        (Ptr (Const CDouble), ''Prop1''), (Ptr (Const CChar), ''Name2''),
        (Ptr (Const CDouble), ''Prop2''), (Ptr (Const CChar), ''Name3''),
        (Ptr (Const CDouble), ''Prop3''), (Ptr CDouble, ''output'')], body = False\<rparr>,
    \<lparr>ret = CDouble, name = ''HAProps'',
      params = [(Ptr (Const CChar), ''Output''), (Ptr (Const CChar), ''Name1''),
        (CDouble, ''Prop1''), (Ptr (Const CChar), ''Name2''), (CDouble, ''Prop2''),
        (Ptr (Const CChar), ''Name3''), (CDouble, ''Prop3'')], body = False\<rparr>,
    \<lparr>ret = CVoid, name = ''haprops_'',
      params = [(Ptr (Const CChar), ''Output''), (Ptr (Const CChar), ''Name1''),
        (Ptr (Const CDouble), ''Prop1''), (Ptr (Const CChar), ''Name2''),
        (Ptr (Const CDouble), ''Prop2''), (Ptr (Const CChar), ''Name3''),
        (Ptr (Const CDouble), ''Prop3''), (Ptr CDouble, ''output'')], body = False\<rparr>,
    \<lparr>ret = CLong, name = ''AbstractState_factory'',
      params = [(Ptr (Const CChar), ''backend''), (Ptr (Const CChar), ''fluids''),
        (Ptr CLong, ''errcode''), (Ptr CChar, ''message_buffer''),
        (Const CLong, ''buffer_length'')], body = False\<rparr>,
    \<lparr>ret = CVoid, name = ''AbstractState_fluid_names'',
      params = [(Const CLong, ''handle''), (Ptr CChar, ''fluids''), (Ptr CLong, ''errcode''),
        (Ptr CChar, ''message_buffer''), (Const CLong, ''buffer_length'')], body = False\<rparr>,
    \<lparr>ret = CVoid, name = ''AbstractState_free'',
      params = [(Const CLong, ''handle''), (Ptr CLong, ''errcode''), (Ptr CChar, ''message_buffer''),
        (Const CLong, ''buffer_length'')], body = False\<rparr>,
    \<lparr>ret = CVoid, name = ''AbstractState_set_fractions'',
      params = [(Const CLong, ''handle''), (Ptr (Const CDouble), ''fractions''),
        (Const CLong, ''N''), (Ptr CLong, ''errcode''), (Ptr CChar, ''message_buffer''),
        (Const CLong, ''buffer_length'')], body = False\<rparr>,
    \<lparr>ret = CVoid, name = ''AbstractState_get_mole_fractions'',
      params = [(Const CLong, ''handle''), (Ptr CDouble, ''fractions''), (Const CLong, ''maxN''),
        (Ptr CLong, ''N''), (Ptr CLong, ''errcode''), (Ptr CChar, ''message_buffer''),
        (Const CLong, ''buffer_length'')], body = False\<rparr>,
    \<lparr>ret = CVoid, name = ''AbstractState_get_mole_fractions_satState'',
      params = [(Const CLong, ''handle''), (Ptr (Const CChar), ''saturated_state''),
        (Ptr CDouble, ''fractions''), (Const CLong, ''maxN''), (Ptr CLong, ''N''),
        (Ptr CLong, ''errcode''), (Ptr CChar, ''message_buffer''),
        (Const CLong, ''buffer_length'')], body = False\<rparr>,
    \<lparr>ret = CDouble, name = ''AbstractState_get_fugacity'',
      params = [(Const CLong, ''handle''), (Const CLong, ''i''), (Ptr CLong, ''errcode''),
        (Ptr CChar, ''message_buffer''), (Const CLong, ''buffer_length'')], body = False\<rparr>,
    \<lparr>ret = CDouble, name = ''AbstractState_get_fugacity_coefficient'',
      params = [(Const CLong, ''handle''), (Const CLong, ''i''), (Ptr CLong, ''errcode''),
        (Ptr CChar, ''message_buffer''), (Const CLong, ''buffer_length'')], body = False\<rparr>,
    \<lparr>ret = CVoid, name = ''AbstractState_update'',
      params = [(Const CLong, ''handle''), (Const CLong, ''input_pair''),
        (Const CDouble, ''value1''), (Const CDouble, ''value2''), (Ptr CLong, ''errcode''),
        (Ptr CChar, ''message_buffer''), (Const CLong, ''buffer_length'')], body = False\<rparr>,
    \<lparr>ret = CVoid, name = ''AbstractState_specify_phase'',
      params = [(Const CLong, ''handle''), (Ptr (Const CChar), ''phase''), (Ptr CLong, ''errcode''),
        (Ptr CChar, ''message_buffer''), (Const CLong, ''buffer_length'')], body = False\<rparr>,
    \<lparr>ret = CVoid, name = ''AbstractState_unspecify_phase'',
      params = [(Const CLong, ''handle''), (Ptr CLong, ''errcode''), (Ptr CChar, ''message_buffer''),
        (Const CLong, ''buffer_length'')], body = False\<rparr>,
    \<lparr>ret = CDouble, name = ''AbstractState_keyed_output'',
      params = [(Const CLong, ''handle''), (Const CLong, ''param''), (Ptr CLong, ''errcode''),
        (Ptr CChar, ''message_buffer''), (Const CLong, ''buffer_length'')], body = False\<rparr>,
    \<lparr>ret = CDouble, name = ''AbstractState_first_saturation_deriv'',
      params = [(Const CLong, ''handle''), (Const CLong, ''Of''), (Const CLong, ''Wrt''),
        (Ptr CLong, ''errcode''), (Ptr CChar, ''message_buffer''),
        (Const CLong, ''buffer_length'')], body = False\<rparr>,
    \<lparr>ret = CDouble, name = ''AbstractState_first_partial_deriv'',
      params = [(Const CLong, ''handle''), (Const CLong, ''Of''), (Const CLong, ''Wrt''),
        (Const CLong, ''Constant''), (Ptr CLong, ''errcode''), (Ptr CChar, ''message_buffer''),
        (Const CLong, ''buffer_length'')], body = False\<rparr>,
    \<lparr>ret = CDouble, name = ''AbstractState_second_two_phase_deriv'',
      params = [(Const CLong, ''handle''), (Const CLong, ''Of1''), (Const CLong, ''Wrt1''),
        (Const CLong, ''Constant1''), (Const CLong, ''Wrt2''), (Const CLong, ''Constant2''),
        (Ptr CLong, ''errcode''), (Ptr CChar, ''message_buffer''),
        (Const CLong, ''buffer_length'')], body = False\<rparr>,
    \<lparr>ret = CDouble, name = ''AbstractState_second_partial_deriv'',
      params = [(Const CLong, ''handle''), (Const CLong, ''Of1''), (Const CLong, ''Wrt1''),
        (Const CLong, ''Constant1''), (Const CLong, ''Wrt2''), (Const CLong, ''Constant2''),
        (Ptr CLong, ''errcode''), (Ptr CChar, ''message_buffer''),
        (Const CLong, ''buffer_length'')], body = False\<rparr>,
    \<lparr>ret = CDouble, name = ''AbstractState_first_two_phase_deriv_splined'',
      params = [(Const CLong, ''handle''), (Const CLong, ''Of''), (Const CLong, ''Wrt''),
        (Const CLong, ''Constant''), (Const CDouble, ''x_end''), (Ptr CLong, ''errcode''),
        (Ptr CChar, ''message_buffer''), (Const CLong, ''buffer_length'')], body = False\<rparr>,
    \<lparr>ret = CDouble, name = ''AbstractState_first_two_phase_deriv'',
      params = [(Const CLong, ''handle''), (Const CLong, ''Of''), (Const CLong, ''Wrt''),
        (Const CLong, ''Constant''), (Ptr CLong, ''errcode''), (Ptr CChar, ''message_buffer''),
        (Const CLong, ''buffer_length'')], body = False\<rparr>,
    \<lparr>ret = CVoid, name = ''AbstractState_update_and_common_out'',
      params = [(Const CLong, ''handle''), (Const CLong, ''input_pair''),
        (Ptr (Const CDouble), ''value1''), (Ptr (Const CDouble), ''value2''),
        (Const CLong, ''length''), (Ptr CDouble, ''T''), (Ptr CDouble, ''p''),
        (Ptr CDouble, ''rhomolar''), (Ptr CDouble, ''hmolar''), (Ptr CDouble, ''smolar''),
        (Ptr CLong, ''errcode''), (Ptr CChar, ''message_buffer''),
        (Const CLong, ''buffer_length'')], body = False\<rparr>,
    \<lparr>ret = CVoid, name = ''AbstractState_update_and_1_out'',
      params = [(Const CLong, ''handle''), (Const CLong, ''input_pair''),
        (Ptr (Const CDouble), ''value1''), (Ptr (Const CDouble), ''value2''),
        (Const CLong, ''length''), (Const CLong, ''output''), (Ptr CDouble, ''out''),
        (Ptr CLong, ''errcode''), (Ptr CChar, ''message_buffer''),
        (Const CLong, ''buffer_length'')], body = False\<rparr>,
    \<lparr>ret = CVoid, name = ''AbstractState_update_and_5_out'',
      params = [(Const CLong, ''handle''), (Const CLong, ''input_pair''),
        (Ptr (Const CDouble), ''value1''), (Ptr (Const CDouble), ''value2''),
        (Const CLong, ''length''), (Ptr CLong, ''outputs''), (Ptr CDouble, ''out1''),
        (Ptr CDouble, ''out2''), (Ptr CDouble, ''out3''), (Ptr CDouble, ''out4''),
        (Ptr CDouble, ''out5''), (Ptr CLong, ''errcode''), (Ptr CChar, ''message_buffer''),
        (Const CLong, ''buffer_length'')], body = False\<rparr>,
    \<lparr>ret = CVoid, name = ''AbstractState_set_binary_interaction_double'',
      params = [(Const CLong, ''handle''), (Const CLong, ''i''), (Const CLong, ''j''),
        (Ptr (Const CChar), ''parameter''), (Const CDouble, ''value''), (Ptr CLong, ''errcode''),
        (Ptr CChar, ''message_buffer''), (Const CLong, ''buffer_length'')], body = False\<rparr>,
    \<lparr>ret = CVoid, name = ''AbstractState_set_cubic_alpha_C'',
      params = [(Const CLong, ''handle''), (Const CLong, ''i''), (Ptr (Const CChar), ''parameter''),
        (Const CDouble, ''c1''), (Const CDouble, ''c2''), (Const CDouble, ''c3''),
        (Ptr CLong, ''errcode''), (Ptr CChar, ''message_buffer''),
        (Const CLong, ''buffer_length'')], body = False\<rparr>,
    \<lparr>ret = CVoid, name = ''AbstractState_set_fluid_parameter_double'',
      params = [(Const CLong, ''handle''), (Const CLong, ''i''), (Ptr (Const CChar), ''parameter''),
        (Const CDouble, ''value''), (Ptr CLong, ''errcode''), (Ptr CChar, ''message_buffer''),
        (Const CLong, ''buffer_length'')], body = False\<rparr>,
    \<lparr>ret = CVoid, name = ''AbstractState_build_phase_envelope'',
      params = [(Const CLong, ''handle''), (Ptr (Const CChar), ''level''), (Ptr CLong, ''errcode''),
        (Ptr CChar, ''message_buffer''), (Const CLong, ''buffer_length'')], body = False\<rparr>,
    \<lparr>ret = CVoid, name = ''AbstractState_get_phase_envelope_data'',
      params = [(Const CLong, ''handle''), (Const CLong, ''length''), (Ptr CDouble, ''T''),
        (Ptr CDouble, ''p''), (Ptr CDouble, ''rhomolar_vap''), (Ptr CDouble, ''rhomolar_liq''),
        (Ptr CDouble, ''x''), (Ptr CDouble, ''y''), (Ptr CLong, ''errcode''),
        (Ptr CChar, ''message_buffer''), (Const CLong, ''buffer_length'')], body = False\<rparr>,
    \<lparr>ret = CVoid, name = ''AbstractState_get_phase_envelope_data_checkedMemory'',
      params = [(Const CLong, ''handle''), (Const CLong, ''length''),
        (Const CLong, ''maxComponents''), (Ptr CDouble, ''T''), (Ptr CDouble, ''p''),
        (Ptr CDouble, ''rhomolar_vap''), (Ptr CDouble, ''rhomolar_liq''), (Ptr CDouble, ''x''),
        (Ptr CDouble, ''y''), (Ptr CLong, ''actual_length''), (Ptr CLong, ''actual_components''),
        (Ptr CLong, ''errcode''), (Ptr CChar, ''message_buffer''),
        (Const CLong, ''buffer_length'')], body = False\<rparr>,
    \<lparr>ret = CVoid, name = ''AbstractState_build_spinodal'',
      params = [(Const CLong, ''handle''), (Ptr CLong, ''errcode''), (Ptr CChar, ''message_buffer''),
        (Const CLong, ''buffer_length'')], body = False\<rparr>,
    \<lparr>ret = CVoid, name = ''AbstractState_get_spinodal_data'',
      params = [(Const CLong, ''handle''), (Const CLong, ''length''), (Ptr CDouble, ''tau''),
        (Ptr CDouble, ''delta''), (Ptr CDouble, ''M1''), (Ptr CLong, ''errcode''),
        (Ptr CChar, ''message_buffer''), (Const CLong, ''buffer_length'')], body = False\<rparr>,
    \<lparr>ret = CVoid, name = ''AbstractState_all_critical_points'',
      params = [(Const CLong, ''handle''), (Const CLong, ''length''), (Ptr CDouble, ''T''),
        (Ptr CDouble, ''p''), (Ptr CDouble, ''rhomolar''), (Ptr CLong, ''stable''),
        (Ptr CLong, ''errcode''), (Ptr CChar, ''message_buffer''),
        (Const CLong, ''buffer_length'')], body = False\<rparr>,
    \<lparr>ret = CDouble, name = ''AbstractState_keyed_output_satState'',
      params = [(Const CLong, ''handle''), (Ptr (Const CChar), ''saturated_state''),
        (Const CLong, ''param''), (Ptr CLong, ''errcode''), (Ptr CChar, ''message_buffer''),
        (Const CLong, ''buffer_length'')], body = False\<rparr>,
    \<lparr>ret = CVoid, name = ''AbstractState_backend_name'',
      params = [(Const CLong, ''handle''), (Ptr CChar, ''backend''), (Ptr CLong, ''errcode''),
        (Ptr CChar, ''message_buffer''), (Const CLong, ''buffer_length'')], body = False\<rparr>,
    \<lparr>ret = CVoid, name = ''AbstractState_fluid_param_string'',
      params = [(Const CLong, ''handle''), (Ptr (Const CChar), ''param''),
        (Ptr CChar, ''return_buffer''), (Const CLong, ''return_buffer_length''),
        (Ptr CLong, ''errcode''), (Ptr CChar, ''message_buffer''),
        (Const CLong, ''buffer_length'')], body = False\<rparr>,
    \<lparr>ret = CInt, name = ''AbstractState_phase'',
      params = [(Const CLong, ''handle''), (Ptr CLong, ''errcode''), (Ptr CChar, ''message_buffer''),
        (Const CLong, ''buffer_length'')], body = False\<rparr>,
    \<lparr>ret = CDouble, name = ''AbstractState_saturated_liquid_keyed_output'',
      params = [(Const CLong, ''handle''), (Const CLong, ''param''), (Ptr CLong, ''errcode''),
        (Ptr CChar, ''message_buffer''), (Const CLong, ''buffer_length'')], body = False\<rparr>,
    \<lparr>ret = CDouble, name = ''AbstractState_saturated_vapor_keyed_output'',
      params = [(Const CLong, ''handle''), (Const CLong, ''param''), (Ptr CLong, ''errcode''),
        (Ptr CChar, ''message_buffer''), (Const CLong, ''buffer_length'')], body = False\<rparr>,
    \<lparr>ret = CVoid, name = ''add_fluids_as_JSON'',
      params = [(Ptr (Const CChar), ''backend''), (Ptr (Const CChar), ''fluidstring''),
        (Ptr CLong, ''errcode''), (Ptr CChar, ''message_buffer''),
        (Const CLong, ''buffer_length'')], body = False\<rparr>,
    \<lparr>ret = CInt, name = ''C_is_valid_fluid_string'',
      params = [(Ptr (Const CChar), ''fluidName'')], body = False\<rparr>,
    \<lparr>ret = CInt, name = ''C_extract_backend'',
      params = [(Ptr (Const CChar), ''fluid_string''), (Ptr CChar, ''backend''),
        (Const CLong, ''backend_length''), (Ptr CChar, ''fluid''),
        (Const CLong, ''fluid_length'')], body = False\<rparr>]"

text \<open>
  What a translation unit that includes the header sees; \<open>powerpc\<close> says whether
  \<^verbatim>\<open>__powerpc__\<close> is defined (the \<^verbatim>\<open>#if defined(__powerpc__)\<close> of line 55).
\<close>

definition CoolPropLib_h :: "bool \<Rightarrow> fn_decl list" where
  "CoolPropLib_h powerpc = (if powerpc then [inline_assert_decl] else []) @ exported"

text \<open>
  The body of \<^verbatim>\<open>__assert\<close>: \<^verbatim>\<open>while (1) ;\<close> tests the constant 1 and runs the
  empty statement again; the function's end is reached only when the loop is left. A call
  that does not return has the value \<open>None\<close>.
\<close>

partial_function (option) inline_assert :: "string \<Rightarrow> unit option" where
  "inline_assert error = (if True then inline_assert error else Some ())"

subsection \<open>What a call can hand back to its caller\<close>

text \<open>
  A C callee can pass information back through its return value (unless it returns
  \<^verbatim>\<open>void\<close>) and through memory it may write: the target of a pointer parameter whose
  pointee is not \<^verbatim>\<open>const\<close>. Parameters passed by value and pointers to \<^verbatim>\<open>const\<close>
  carry information in only.
\<close>

fun writable :: "ctype \<Rightarrow> bool" where
  "writable (Ptr (Const t)) = False"
| "writable (Ptr t) = True"
| "writable (Const t) = writable t"
| "writable t = False"

datatype channel = ReturnValue ctype | OutParam ctype string

definition output_channels :: "fn_decl \<Rightarrow> channel list" where
  "output_channels d =
    (if ret d = CVoid then [] else [ReturnValue (ret d)]) @
    map (\<lambda>(t, n). OutParam t n) (filter (\<lambda>(t, n). writable t) (params d))"

text \<open>
  The error channel of the handle-based family: the three trailing parameters
  \<^verbatim>\<open>long *errcode, char *message_buffer, const long buffer_length\<close>.
\<close>

definition error_channel_params :: "(ctype \<times> string) list" where
  "error_channel_params =
    [(Ptr CLong, ''errcode''), (Ptr CChar, ''message_buffer''), (Const CLong, ''buffer_length'')]"

definition has_error_channel :: "fn_decl \<Rightarrow> bool" where
  "has_error_channel d =
    (drop (length (params d) - 3) (params d) = error_channel_params)"

definition names_error_parameter :: "fn_decl \<Rightarrow> bool" where
  "names_error_parameter d =
    (filter (\<lambda>(t, n). n \<in> set (map snd error_channel_params)) (params d) \<noteq> [])"

definition is_AbstractState :: "fn_decl \<Rightarrow> bool" where
  "is_AbstractState d = (take 14 (name d) = ''AbstractState_'')"

definition takes_handle :: "fn_decl \<Rightarrow> bool" where
  "takes_handle d = (take 1 (params d) = [(Const CLong, ''handle'')])"

section \<open>The engine behind the handle-based declarations\<close>

text \<open>
  The header declares the \<^verbatim>\<open>AbstractState_\<close> functions and gives none of them a body:
  their code is in the library behind the header. What they do is taken
  from the specification (sections 3, 4.2, 4.3, 4.4 and 7), in the specification's words,
  as far as the registry of handles and the batch updates need it. The equation of state is
  a black box there ("EosBackend") and is a parameter here.

  A C call that writes \<^verbatim>\<open>*errcode\<close> and returns a value is a function returning
  \<open>error_code + 'a\<close>: \<open>Inl e\<close> is the non-zero code of \<open>e\<close>, \<open>Inr v\<close> is code 0 with
  the value \<open>v\<close>. State is passed explicitly: every operation takes the registry and
  returns the registry it leaves.
\<close>

text \<open>Modelled from the spec: the taxonomy of error codes of section 7.\<close>

datatype error_code =
    InvalidHandle | UnknownBackend | InvalidFluidSpec | InvalidInputPair | InvalidInput
  | ConvergenceFailure | NotUpdated | NotSinglePhase | NotTwoPhase | UnsupportedDerivative
  | UnsupportedParameter | IndexOutOfRange | SizeMismatch | CurveTraceFailure
  | InternalInvariantViolation

text \<open>
  Modelled from the spec: a \<^verbatim>\<open>double\<close> input is a finite number or is not finite
  ("values must be finite", section 4.3); no arithmetic is done on it here.
\<close>

datatype double = Finite real | PosInf | NegInf | NaN

text \<open>
  Modelled from the spec: a Handle is "an opaque, process-unique, monotonically issued
  integer" (section 3); the header passes it as \<^verbatim>\<open>long\<close>. The counter is unbounded here.
\<close>

type_synonym handle = int

text \<open>Modelled from the spec: the optional phase specification of a StateObject (section 3).\<close>

datatype phase_spec = Liquid | Vapor | Supercritical

text \<open>
  Modelled from the spec: MixtureComposition, "ordered sequence of component names with a
  parallel sequence of mole (or mass) fractions" (section 3).
\<close>

record MixtureComposition =
  names :: "string list"
  fractions :: "real list"

text \<open>
  Modelled from the spec: EquilibriumState, "temperature, pressure, molar density, phase
  label, and (if two-phase) vapor quality and phase compositions" (section 3).
\<close>

record EquilibriumState =
  temperature :: real
  pressure :: real
  molar_density :: real
  phase_label :: string
  quality :: "real option"
  phase_compositions :: "(real list \<times> real list) option"

text \<open>
  Modelled from the spec: the "fixed set of supported solution strategies (direct
  evaluation, single-phase root-find on the backend's equation of state, two-phase flash
  with phase-split iteration)" of section 4.3.
\<close>

datatype strategy = DirectEvaluation | SinglePhaseRootFind | TwoPhaseFlash

text \<open>
  Modelled from the spec: the EosBackend, "treated as a black-box capability" (section 1).
  Its fields are what sections 4.3 and 4.4 ask of it: the strategy an input pair resolves to
  (\<open>None\<close>: the pair is not implemented); which of the two inputs must be positive; the
  direct evaluation; for the iterative strategies the first iterate (it sees the phase
  specification, which constrains the solver's branch), one iteration, the relative
  residual, its tolerance and the bound on the iteration count, and the state a converged
  iterate stands for; and the evaluation of a keyed property at an EquilibriumState. The
  type \<open>'s\<close> is the solver's working state.
\<close>

record 's EosBackend =
  strategy_of :: "int \<Rightarrow> strategy option"
  needs_positive :: "int \<Rightarrow> bool \<times> bool"
  evaluate :: "MixtureComposition \<Rightarrow> int \<Rightarrow> real \<Rightarrow> real \<Rightarrow> EquilibriumState"
  initial ::
    "strategy \<Rightarrow> MixtureComposition \<Rightarrow> phase_spec option \<Rightarrow> int \<Rightarrow> real \<Rightarrow> real \<Rightarrow> 's"
  iterate :: "'s \<Rightarrow> 's"
  residual :: "'s \<Rightarrow> real"
  tolerance :: real
  max_iterations :: nat
  converged_state :: "'s \<Rightarrow> EquilibriumState"
  property :: "MixtureComposition \<Rightarrow> EquilibriumState \<Rightarrow> int \<Rightarrow> error_code + real"

text \<open>
  Modelled from the spec: StateObject, which "owns an EosBackend instance, a
  MixtureComposition, an optional phase specification, a current converged EquilibriumState
  (or unconverged), and optional cached PhaseEnvelope, SpinodalCurve, CriticalPointSet"
  (section 3). A curve is a sequence of sample points, each a fixed-width row of numbers.
\<close>

record 's StateObject =
  eos :: "'s EosBackend"
  composition :: MixtureComposition
  specified_phase :: "phase_spec option"
  equilibrium :: "EquilibriumState option"
  phase_envelope :: "real list list option"
  spinodal :: "real list list option"
  critical_points :: "real list list option"

text \<open>
  Modelled from the spec: the HandleRegistry, "an arena-style table keyed by a
  monotonically increasing identifier" (sections 4.2 and 9): the live objects by handle,
  and the counter that gives the next handle.
\<close>

record 's registry =
  objects :: "handle \<rightharpoonup> 's StateObject"
  next_handle :: handle

text \<open>
  Modelled from the spec: what \<open>create\<close> validates against (sections 4.2 and 6): the fixed
  registry of backend names, and the loader of fluid descriptions, which "hands the core a
  validated MixtureComposition" or rejects the description.
\<close>

record 's engine =
  backends :: "string \<rightharpoonup> 's EosBackend"
  fluids :: "string \<rightharpoonup> MixtureComposition"

text \<open>
  Modelled from the spec: the registry of a process that has created nothing yet. The
  specification does not give the first handle; the counter starts at 0 here.
\<close>

definition empty_registry :: "'s registry" where
  "empty_registry = \<lparr>objects = Map.empty, next_handle = 0\<rparr>"

text \<open>
  Modelled from the spec: a StateObject in state Created: "no EquilibriumState"
  (section 4.3), no phase specified, no curve cached.
\<close>

definition new_object :: "'s EosBackend \<Rightarrow> MixtureComposition \<Rightarrow> 's StateObject" where
  "new_object B c =
    \<lparr>eos = B, composition = c, specified_phase = None, equilibrium = None,
     phase_envelope = None, spinodal = None, critical_points = None\<rparr>"

text \<open>
  Modelled from the spec: \<open>create(backendName, fluidNames)\<close> of section 4.2, the body
  missing behind the declaration of \<^verbatim>\<open>AbstractState_factory\<close>: it "validates backend name
  against a known set, validates fluid name syntax, allocates a StateObject, assigns a fresh
  handle" from the "monotonic counter", and "fails with UnknownBackend or InvalidFluidSpec".
\<close>

definition AbstractState_factory ::
  "'s engine \<Rightarrow> 's registry \<Rightarrow> string \<Rightarrow> string \<Rightarrow> 's registry \<times> (error_code + handle)" where
  "AbstractState_factory E reg backend fluid_names =
    (case backends E backend of
       None \<Rightarrow> (reg, Inl UnknownBackend)
     | Some B \<Rightarrow>
        (case fluids E fluid_names of
           None \<Rightarrow> (reg, Inl InvalidFluidSpec)
         | Some c \<Rightarrow>
            (reg\<lparr>objects := (objects reg)(next_handle reg \<mapsto> new_object B c),
                 next_handle := next_handle reg + 1\<rparr>,
             Inr (next_handle reg))))"

text \<open>
  Modelled from the spec: \<open>lookup(handle) -> StateObject reference | InvalidHandle\<close>,
  "used internally by every other operation; single point of validation" (section 4.2).
\<close>

definition lookup :: "'s registry \<Rightarrow> handle \<Rightarrow> error_code + 's StateObject" where
  "lookup reg h = (case objects reg h of None \<Rightarrow> Inl InvalidHandle | Some obj \<Rightarrow> Inr obj)"

text \<open>
  Modelled from the spec: \<open>release(handle)\<close> of section 4.2, the body missing behind the
  declaration of \<^verbatim>\<open>AbstractState_free\<close>: removal, and "releasing an already-released or
  unknown handle is reported as InvalidHandle".
\<close>

definition AbstractState_free :: "'s registry \<Rightarrow> handle \<Rightarrow> 's registry \<times> (error_code + unit)" where
  "AbstractState_free reg h =
    (case lookup reg h of
       Inl e \<Rightarrow> (reg, Inl e)
     | Inr obj \<Rightarrow> (reg\<lparr>objects := (objects reg)(h := None)\<rparr>, Inr ()))"

text \<open>
  Modelled from the spec: the shape of every other handle-based operation (sections 4.2
  and 6): the handle is looked up first; on a live object the operation's own work \<open>f\<close>
  runs, which returns the object as it leaves it and the value or the error it reports.
\<close>

definition handle_operation ::
  "'s registry \<Rightarrow> handle \<Rightarrow> ('s StateObject \<Rightarrow> 's StateObject \<times> (error_code + 'r))
    \<Rightarrow> 's registry \<times> (error_code + 'r)" where
  "handle_operation reg h f =
    (case lookup reg h of
       Inl e \<Rightarrow> (reg, Inl e)
     | Inr obj \<Rightarrow>
        (case f obj of (obj', r) \<Rightarrow> (reg\<lparr>objects := (objects reg)(h \<mapsto> obj')\<rparr>, r)))"

text \<open>Modelled from the spec: "values must be finite" (section 4.3).\<close>

fun finite_value :: "double \<Rightarrow> real option" where
  "finite_value (Finite x) = Some x"
| "finite_value v = None"

text \<open>
  Modelled from the spec: the input validation of section 4.3: "values must be finite;
  density/pressure/temperature-like inputs must be positive where physically required".
\<close>

definition valid_inputs ::
  "'s EosBackend \<Rightarrow> int \<Rightarrow> double \<Rightarrow> double \<Rightarrow> (real \<times> real) option" where
  "valid_inputs B pair value1 value2 =
    (case (finite_value value1, finite_value value2) of
       (Some x, Some y) \<Rightarrow>
         if (fst (needs_positive B pair) \<and> x \<le> 0) \<or> (snd (needs_positive B pair) \<and> y \<le> 0)
         then None else Some (x, y)
     | _ \<Rightarrow> None)"

text \<open>
  Modelled from the spec: the convergence policy of section 4.3: "iterative branches use a
  bounded iteration count and a relative-residual tolerance; exceeding the bound fails with
  ConvergenceFailure". \<open>k\<close> counts the iterations done.
\<close>

function solve :: "'s EosBackend \<Rightarrow> nat \<Rightarrow> 's \<Rightarrow> error_code + 's" where
  "solve B k s =
    (if residual B s \<le> tolerance B then Inr s
     else if max_iterations B \<le> k then Inl ConvergenceFailure
     else solve B (Suc k) (iterate B s))"
  by pat_completeness auto
termination
  by (relation "measure (\<lambda>(B, k, s). max_iterations B - k)") auto

declare solve.simps [simp del]

text \<open>
  Modelled from the spec: the flash of section 4.3: it "resolves inputPair to one of a fixed
  set of supported solution strategies" ("invalid pairs fail with InvalidInputPair",
  section 3); input violations "fail with InvalidInput before any solver iteration runs";
  then the strategy runs on the object's backend, composition and phase specification.
\<close>

definition flash ::
  "'s StateObject \<Rightarrow> int \<Rightarrow> double \<Rightarrow> double \<Rightarrow> error_code + EquilibriumState" where
  "flash obj pair value1 value2 =
    (case strategy_of (eos obj) pair of
       None \<Rightarrow> Inl InvalidInputPair
     | Some st \<Rightarrow>
        (case valid_inputs (eos obj) pair value1 value2 of
           None \<Rightarrow> Inl InvalidInput
         | Some (x, y) \<Rightarrow>
            (case st of
               DirectEvaluation \<Rightarrow> Inr (evaluate (eos obj) (composition obj) pair x y)
             | _ \<Rightarrow>
                (case solve (eos obj) 0
                        (initial (eos obj) st (composition obj) (specified_phase obj) pair x y) of
                   Inl e \<Rightarrow> Inl e
                 | Inr s \<Rightarrow> Inr (converged_state (eos obj) s)))))"

text \<open>
  Modelled from the spec: \<open>update(handle, inputPair, value1, value2)\<close> on the object
  (section 4.3): "update success -> Converged (overwritten); update failure from either
  state -> unchanged state, error reported".
\<close>

definition update ::
  "int \<Rightarrow> double \<Rightarrow> double \<Rightarrow> 's StateObject \<Rightarrow> 's StateObject \<times> (error_code + unit)" where
  "update pair value1 value2 obj =
    (case flash obj pair value1 value2 of
       Inl e \<Rightarrow> (obj, Inl e)
     | Inr eq \<Rightarrow> (obj\<lparr>equilibrium := Some eq\<rparr>, Inr ()))"

text \<open>
  Modelled from the spec: \<open>keyedOutput(handle, propertyKey)\<close> on the object (section 4.4):
  it "requires state = Converged; else NotUpdated", and evaluates the key at the
  EquilibriumState ("no re-solving the flash").
\<close>

definition keyed_output :: "int \<Rightarrow> 's StateObject \<Rightarrow> error_code + real" where
  "keyed_output key obj =
    (case equilibrium obj of
       None \<Rightarrow> Inl NotUpdated
     | Some eq \<Rightarrow> property (eos obj) (composition obj) eq key)"

text \<open>
  Modelled from the spec: the "one or more requested outputs" of one batch entry
  (section 4.3), queried in order; the first key that fails fails the entry.
\<close>

fun keyed_outputs :: "int list \<Rightarrow> 's StateObject \<Rightarrow> error_code + real list" where
  "keyed_outputs [] obj = Inr []"
| "keyed_outputs (key # keys) obj =
    (case keyed_output key obj of
       Inl e \<Rightarrow> Inl e
     | Inr v \<Rightarrow> (case keyed_outputs keys obj of Inl e \<Rightarrow> Inl e | Inr vs \<Rightarrow> Inr (v # vs)))"

text \<open>
  Modelled from the spec: one entry of the vectorized variant (section 4.3): it "performs
  the update and immediately extracts one or more requested outputs"; the entry yields
  its results (\<open>Inr\<close>) or its error marker (\<open>Inl\<close>).
\<close>

definition update_then_outputs ::
  "int \<Rightarrow> int list \<Rightarrow> double \<times> double \<Rightarrow> 's StateObject
    \<Rightarrow> 's StateObject \<times> (error_code + real list)" where
  "update_then_outputs pair keys v obj =
    (case update pair (fst v) (snd v) obj of
       (obj', Inl e) \<Rightarrow> (obj', Inl e)
     | (obj', Inr u) \<Rightarrow> (obj', keyed_outputs keys obj'))"

text \<open>
  Modelled from the spec: the loop of the vectorized variant over its entries
  (section 4.3): "a failure on one entry is recorded and does not abort remaining entries".
  Each entry runs on the object as the entry before it left it.
\<close>

fun update_entries ::
  "int \<Rightarrow> int list \<Rightarrow> (double \<times> double) list \<Rightarrow> 's StateObject
    \<Rightarrow> 's StateObject \<times> (error_code + real list) list" where
  "update_entries pair keys [] obj = (obj, [])"
| "update_entries pair keys (v # vs) obj =
    (case update_then_outputs pair keys v obj of
       (obj1, r) \<Rightarrow>
         (case update_entries pair keys vs obj1 of (obj2, rs) \<Rightarrow> (obj2, r # rs)))"

text \<open>
  Modelled from the spec: "the overall call reports the first error code encountered"
  (section 4.3); \<open>None\<close> is the code 0 of a batch without a failing entry.
\<close>

fun first_error :: "(error_code + 'a) list \<Rightarrow> error_code option" where
  "first_error [] = None"
| "first_error (Inl e # rs) = Some e"
| "first_error (Inr v # rs) = first_error rs"

text \<open>
  Modelled from the spec: the vectorized variant of section 4.3 at the boundary, the body
  missing behind the declarations of \<^verbatim>\<open>AbstractState_update_and_1_out\<close>,
  \<^verbatim>\<open>AbstractState_update_and_5_out\<close> and \<^verbatim>\<open>AbstractState_update_and_common_out\<close>. It
  "accepts parallel arrays of (value1, value2) of equal length": the C arrays \<open>value1\<close> and
  \<open>value2\<close> are lists, of which the first \<open>len\<close> elements are read (no element when
  \<open>len\<close> is not positive). Like every operation it goes through \<open>handle_operation\<close>;
  it returns the registry, the overall error code and the entries' results or markers in
  the order of the inputs (no entry when the handle is not valid).
\<close>

definition update_and_outputs ::
  "'s registry \<Rightarrow> handle \<Rightarrow> int \<Rightarrow> int list \<Rightarrow> double list \<Rightarrow> double list \<Rightarrow> int
    \<Rightarrow> 's registry \<times> error_code option \<times> (error_code + real list) list" where
  "update_and_outputs reg h pair keys value1 value2 len =
    (case handle_operation reg h
            (\<lambda>obj.
               case update_entries pair keys
                      (zip (take (nat len) value1) (take (nat len) value2)) obj of
                 (obj', rs) \<Rightarrow> (obj', Inr rs)) of
       (reg', Inl e) \<Rightarrow> (reg', Some e, [])
     | (reg', Inr rs) \<Rightarrow> (reg', first_error rs, rs))"

text \<open>
  Modelled from the spec: the body missing behind the declaration of
  \<^verbatim>\<open>AbstractState_update\<close>: \<open>update\<close> of section 4.3 on the object of the handle.
\<close>

definition AbstractState_update ::
  "'s registry \<Rightarrow> handle \<Rightarrow> int \<Rightarrow> double \<Rightarrow> double \<Rightarrow> 's registry \<times> (error_code + unit)" where
  "AbstractState_update reg h pair value1 value2 =
    handle_operation reg h (update pair value1 value2)"

text \<open>
  Modelled from the spec: the body missing behind the declaration of
  \<^verbatim>\<open>AbstractState_keyed_output\<close>: \<open>keyedOutput\<close> of section 4.4 on the object of the
  handle, which it leaves as it is.
\<close>

definition AbstractState_keyed_output ::
  "'s registry \<Rightarrow> handle \<Rightarrow> int \<Rightarrow> 's registry \<times> (error_code + real)" where
  "AbstractState_keyed_output reg h key =
    handle_operation reg h (\<lambda>obj. (obj, keyed_output key obj))"

text \<open>
  Modelled from the spec: \<^verbatim>\<open>AbstractState_update_and_1_out\<close>, the vectorized variant with
  the one requested output \<open>output\<close>.
\<close>

definition AbstractState_update_and_1_out ::
  "'s registry \<Rightarrow> handle \<Rightarrow> int \<Rightarrow> double list \<Rightarrow> double list \<Rightarrow> int \<Rightarrow> int
    \<Rightarrow> 's registry \<times> error_code option \<times> (error_code + real list) list" where
  "AbstractState_update_and_1_out reg h pair value1 value2 len output =
    update_and_outputs reg h pair [output] value1 value2 len"

text \<open>
  Modelled from the spec: \<^verbatim>\<open>AbstractState_update_and_5_out\<close>, the vectorized variant with
  the five requested outputs that the array \<open>outputs\<close> holds.
\<close>

definition AbstractState_update_and_5_out ::
  "'s registry \<Rightarrow> handle \<Rightarrow> int \<Rightarrow> double list \<Rightarrow> double list \<Rightarrow> int \<Rightarrow> int list
    \<Rightarrow> 's registry \<times> error_code option \<times> (error_code + real list) list" where
  "AbstractState_update_and_5_out reg h pair value1 value2 len outputs =
    update_and_outputs reg h pair (take 5 outputs) value1 value2 len"

text \<open>
  Modelled from the spec: \<^verbatim>\<open>AbstractState_update_and_common_out\<close>, the vectorized variant
  whose five outputs are fixed: the keys of the header's output arrays \<^verbatim>\<open>T\<close>, \<^verbatim>\<open>p\<close>,
  \<^verbatim>\<open>rhomolar\<close>, \<^verbatim>\<open>hmolar\<close> and \<^verbatim>\<open>smolar\<close>. The enumeration of property keys
  (\<^verbatim>\<open>get_param_index\<close>, declared in the header without a body) is a parameter.
\<close>

definition AbstractState_update_and_common_out ::
  "(string \<Rightarrow> int) \<Rightarrow> 's registry \<Rightarrow> handle \<Rightarrow> int \<Rightarrow> double list \<Rightarrow> double list \<Rightarrow> int
    \<Rightarrow> 's registry \<times> error_code option \<times> (error_code + real list) list" where
  "AbstractState_update_and_common_out get_param_index reg h pair value1 value2 len =
    update_and_outputs reg h pair
      (map get_param_index [''T'', ''p'', ''rhomolar'', ''hmolar'', ''smolar'']) value1 value2 len"

subsection \<open>Histories of calls\<close>

text \<open>
  A caller's history is a sequence of calls: of the factory, of \<^verbatim>\<open>AbstractState_free\<close>,
  and of any other handle-based operation (given by its work on the object). Running a
  history threads the registry through the calls and collects the replies.
\<close>

datatype ('s, 'r) call =
    Factory string string
  | Free handle
  | Operation handle "'s StateObject \<Rightarrow> 's StateObject \<times> (error_code + 'r)"

datatype 'r reply = Issued handle | Released | Returned 'r | Failed error_code

fun step :: "'s engine \<Rightarrow> 's registry \<Rightarrow> ('s, 'r) call \<Rightarrow> 's registry \<times> 'r reply" where
  "step E reg (Factory backend fluid_names) =
    (case AbstractState_factory E reg backend fluid_names of
       (reg', Inl e) \<Rightarrow> (reg', Failed e)
     | (reg', Inr h) \<Rightarrow> (reg', Issued h))"
| "step E reg (Free h) =
    (case AbstractState_free reg h of
       (reg', Inl e) \<Rightarrow> (reg', Failed e)
     | (reg', Inr u) \<Rightarrow> (reg', Released))"
| "step E reg (Operation h f) =
    (case handle_operation reg h f of
       (reg', Inl e) \<Rightarrow> (reg', Failed e)
     | (reg', Inr r) \<Rightarrow> (reg', Returned r))"

fun run :: "'s engine \<Rightarrow> 's registry \<Rightarrow> ('s, 'r) call list \<Rightarrow> 's registry \<times> 'r reply list" where
  "run E reg [] = (reg, [])"
| "run E reg (c # cs) =
    (case step E reg c of
       (reg1, r) \<Rightarrow> (case run E reg1 cs of (reg2, rs) \<Rightarrow> (reg2, r # rs)))"

text \<open>The handles a history's factory calls have issued.\<close>

fun issued :: "'r reply list \<Rightarrow> handle list" where
  "issued [] = []"
| "issued (Issued h # rs) = h # issued rs"
| "issued (r # rs) = issued rs"

text \<open>The handles a history's calls of \<^verbatim>\<open>AbstractState_free\<close> have released.\<close>

fun released :: "('s, 'r) call list \<Rightarrow> 'r reply list \<Rightarrow> handle list" where
  "released (Free h # cs) (Released # rs) = h # released cs rs"
| "released (c # cs) (r # rs) = released cs rs"
| "released cs rs = []"

text \<open>
  The invariant of the registry along a history: the live handles are the issued ones
  that were not released, only issued handles are released, and every issued handle lies
  below the counter.
\<close>

definition tracked :: "'s registry \<Rightarrow> handle set \<Rightarrow> handle set \<Rightarrow> bool" where
  "tracked reg I R =
    ((\<forall>x. (objects reg x \<noteq> None) = (x \<in> I \<and> x \<notin> R)) \<and> R \<subseteq> I
     \<and> (\<forall>x\<in>I. x < next_handle reg))"

subsection \<open>Independent entries\<close>

text \<open>
  What the entries of a batch yield when each of them is run alone on the object \<open>obj\<close>:
  a single update followed by the keyed outputs, every entry from the same \<open>obj\<close>.
\<close>

definition independent_entries ::
  "int \<Rightarrow> int list \<Rightarrow> (double \<times> double) list \<Rightarrow> 's StateObject
    \<Rightarrow> (error_code + real list) list" where
  "independent_entries pair keys vs obj =
    map (\<lambda>v. snd (update_then_outputs pair keys v obj)) vs"

text \<open>Two objects that differ at most in their EquilibriumState and their cached curves.\<close>

definition same_setup :: "'s StateObject \<Rightarrow> 's StateObject \<Rightarrow> bool" where
  "same_setup a b =
    (eos b = eos a \<and> composition b = composition a \<and> specified_phase b = specified_phase a)"

subsection \<open>An instance to evaluate on\<close>

text \<open>
  A small backend on which the model can be run. Input pair 0 is read as (temperature,
  pressure) and evaluated directly by \<open>rho = p / (8 T)\<close>. Input pair 1 resolves to the
  root-finder: its iterate is (value1, value2, r) with the residual \<open>r\<close>, which starts at
  \<open>value1\<close> and is halved by each iteration; the tolerance is 1 and at most 3 iterations
  are made, so the iteration converges exactly for \<open>value1 \<le> 8\<close>. Both inputs must be
  positive; no other pair is implemented. Keys 0, 1 and 2 are temperature, pressure and
  molar density.
\<close>

definition example_backend :: "(real \<times> real \<times> real) EosBackend" where
  "example_backend =
    \<lparr>strategy_of = (\<lambda>pair.
        if pair = 0 then Some DirectEvaluation
        else if pair = 1 then Some SinglePhaseRootFind
        else None),
     needs_positive = (\<lambda>pair. (True, True)),
     evaluate = (\<lambda>c pair t p.
        \<lparr>temperature = t, pressure = p, molar_density = p / (8 * t), phase_label = ''gas'',
         quality = None, phase_compositions = None\<rparr>),
     initial = (\<lambda>st c ph pair x y. (x, y, x)),
     iterate = (\<lambda>(x, y, r). (x, y, r / 2)),
     residual = (\<lambda>(x, y, r). r),
     tolerance = 1,
     max_iterations = 3,
     converged_state = (\<lambda>(x, y, r).
        \<lparr>temperature = x, pressure = y, molar_density = r, phase_label = ''gas'',
         quality = None, phase_compositions = None\<rparr>),
     property = (\<lambda>c eq key.
        if key = 0 then Inr (temperature eq)
        else if key = 1 then Inr (pressure eq)
        else if key = 2 then Inr (molar_density eq)
        else Inl UnsupportedParameter)\<rparr>"

definition example_engine :: "(real \<times> real \<times> real) engine" where
  "example_engine =
    \<lparr>backends = [''HEOS'' \<mapsto> example_backend],
     fluids = [''Water'' \<mapsto> \<lparr>names = [''Water''], fractions = [1]\<rparr>]\<rparr>"

text \<open>
  A history: create an object, update it, release it, release it again, create another.
  Then a registry with one fresh object, under handle 0.
\<close>

definition example_calls :: "(real \<times> real \<times> real, unit) call list" where
  "example_calls =
    [Factory ''HEOS'' ''Water'', Operation 0 (update 0 (Finite 300) (Finite 2400)), Free 0,
     Free 0, Factory ''HEOS'' ''Water'']"

text \<open>An object of the same setup that an earlier update has left converged.\<close>

definition example_converged :: "(real \<times> real \<times> real) StateObject" where
  "example_converged =
    (new_object example_backend \<lparr>names = [''Water''], fractions = [1]\<rparr>)
      \<lparr>equilibrium :=
         Some \<lparr>temperature = 500, pressure = 4000, molar_density = 1, phase_label = ''gas'',
               quality = None, phase_compositions = None\<rparr>\<rparr>"

definition example_registry :: "(real \<times> real \<times> real) registry" where
  "example_registry = fst (AbstractState_factory example_engine empty_registry ''HEOS'' ''Water'')"

section \<open>Facts of the header\<close>

text \<open>
  Claim C9. \<^verbatim>\<open>Props1SI\<close>, \<^verbatim>\<open>PropsSI\<close> and \<^verbatim>\<open>HAPropsSI\<close> are each declared once,
  return \<^verbatim>\<open>double\<close>, have no error channel, and the returned \<^verbatim>\<open>double\<close> is the only
  thing a call can hand back (every parameter is passed by value or points to \<^verbatim>\<open>const\<close>):
  a failure can be signalled in the returned value only. Every \<^verbatim>\<open>AbstractState_\<close>
  function, and so every function taking a handle, ends its parameter list with the error
  channel \<^verbatim>\<open>long *errcode, char *message_buffer, const long buffer_length\<close>.
\<close>

theorem stateless_props_signal_by_value_only:
  "map (\<lambda>d. (name d, ret d, output_channels d, has_error_channel d, names_error_parameter d))
       (filter (\<lambda>d. name d \<in> set [''Props1SI'', ''PropsSI'', ''HAPropsSI'']) exported)
     = [(''Props1SI'', CDouble, [ReturnValue CDouble], False, False),
        (''PropsSI'', CDouble, [ReturnValue CDouble], False, False),
        (''HAPropsSI'', CDouble, [ReturnValue CDouble], False, False)]
   \<and> list_all has_error_channel (filter is_AbstractState exported)
   \<and> list_all is_AbstractState (filter takes_handle exported)
   \<and> length (filter takes_handle exported) = 35"
proof (intro conjI)
  show "map (\<lambda>d. (name d, ret d, output_channels d, has_error_channel d, names_error_parameter d))
       (filter (\<lambda>d. name d \<in> set [''Props1SI'', ''PropsSI'', ''HAPropsSI'']) exported)
     = [(''Props1SI'', CDouble, [ReturnValue CDouble], False, False),
        (''PropsSI'', CDouble, [ReturnValue CDouble], False, False),
        (''HAPropsSI'', CDouble, [ReturnValue CDouble], False, False)]"
    by code_simp
  show "list_all has_error_channel (filter is_AbstractState exported)"
    by code_simp
  show "list_all is_AbstractState (filter takes_handle exported)"
    by code_simp
  show "length (filter takes_handle exported) = 35"
    by code_simp
qed

text \<open>
  Claim C10. \<^verbatim>\<open>set_config_string\<close>, \<^verbatim>\<open>set_config_double\<close> and
  \<^verbatim>\<open>set_config_bool\<close> return \<^verbatim>\<open>void\<close>, take a \<^verbatim>\<open>const char *key\<close> and a value
  passed in only, and have no error channel: a call has no way to hand anything back to its
  caller, whatever the key and the value are.
\<close>

theorem set_config_reports_nothing:
  "map (\<lambda>d. (name d, ret d, params d, output_channels d, has_error_channel d))
       (filter (\<lambda>d. name d \<in> set [''set_config_string'', ''set_config_double'', ''set_config_bool''])
          exported)
     = [(''set_config_string'', CVoid,
           [(Ptr (Const CChar), ''key''), (Ptr (Const CChar), ''val'')], [], False),
        (''set_config_double'', CVoid,
           [(Ptr (Const CChar), ''key''), (Const CDouble, ''val'')], [], False),
        (''set_config_bool'', CVoid,
           [(Ptr (Const CChar), ''key''), (Const CBool, ''val'')], [], False)]"
  by code_simp

section \<open>Facts of the engine\<close>

subsection \<open>Handles\<close>

lemma lookup_invalid: "objects reg h = None \<Longrightarrow> lookup reg h = Inl InvalidHandle"
  by (simp add: lookup_def)

lemma step_tracked:
  assumes "step E reg c = (reg', r)" and "tracked reg I R"
  shows "tracked reg' (I \<union> set (issued [r])) (R \<union> set (released [c] [r]))"
proof (cases c)
  case (Factory b f)
  have fresh: "next_handle reg \<notin> I" "next_handle reg \<notin> R"
    using assms(2) by (auto simp: tracked_def)
  from Factory assms fresh show ?thesis
    by (auto simp: tracked_def AbstractState_factory_def split: option.splits if_splits)
next
  case (Free h)
  with assms show ?thesis
    by (auto simp: tracked_def AbstractState_free_def lookup_def split: option.splits if_splits)
next
  case (Operation h f)
  with assms show ?thesis
    by (auto simp: tracked_def handle_operation_def lookup_def
        split: option.splits prod.splits sum.splits if_splits)
qed

lemma issued_Cons: "set (issued (r # rs)) = set (issued [r]) \<union> set (issued rs)"
  by (cases r) auto

lemma released_Cons:
  "set (released (c # cs) (r # rs)) = set (released [c] [r]) \<union> set (released cs rs)"
  by (cases c; cases r) auto

lemma run_tracked:
  "run E reg cs = (reg', rs) \<Longrightarrow> tracked reg I R
    \<Longrightarrow> tracked reg' (I \<union> set (issued rs)) (R \<union> set (released cs rs))"
proof (induction cs arbitrary: reg reg' rs I R)
  case Nil
  then show ?case by simp
next
  case (Cons c cs)
  obtain reg1 r where s: "step E reg c = (reg1, r)" by (cases "step E reg c")
  obtain reg2 rs' where t: "run E reg1 cs = (reg2, rs')" by (cases "run E reg1 cs")
  from Cons.prems(1) s t have eq: "reg' = reg2" "rs = r # rs'" by auto
  have "tracked reg1 (I \<union> set (issued [r])) (R \<union> set (released [c] [r]))"
    using step_tracked [OF s Cons.prems(2)] .
  from Cons.IH [OF t this]
  show ?case unfolding eq issued_Cons [of r rs'] released_Cons [of c cs r rs']
    by (simp add: Un_assoc)
qed

lemma run_invalid:
  assumes "h \<notin> set (issued (snd (run E empty_registry cs)))
           \<or> h \<in> set (released cs (snd (run E empty_registry cs)))"
  shows "objects (fst (run E empty_registry cs)) h = None"
proof -
  obtain reg rs where r: "run E empty_registry cs = (reg, rs)"
    by (cases "run E empty_registry cs")
  have "tracked (empty_registry :: 's registry) {} {}"
    by (simp add: tracked_def empty_registry_def)
  from run_tracked [OF r this]
  have "(objects reg h \<noteq> None) = (h \<in> set (issued rs) \<and> h \<notin> set (released cs rs))"
    by (simp add: tracked_def)
  with assms r show ?thesis by auto
qed

text \<open>
  Claim C2. Take any history of calls from the empty registry, and a handle that the
  history's factory calls never issued, or that one of its calls of
  \<^verbatim>\<open>AbstractState_free\<close> released. On the registry the history leaves, releasing the
  handle (again) and every other operation on it (any work \<open>f\<close>; the update, the keyed
  output and the batch updates among them) report \<open>InvalidHandle\<close> and return the
  registry unchanged, so no entry and no StateObject is touched. A released handle stays
  invalid however many objects are created later: the counter never gives it out again.
\<close>

theorem invalid_handle_rejected:
  assumes "h \<notin> set (issued (snd (run E empty_registry cs)))
           \<or> h \<in> set (released cs (snd (run E empty_registry cs)))"
  shows "(let reg = fst (run E empty_registry cs) in
           AbstractState_free reg h = (reg, Inl InvalidHandle)
         \<and> handle_operation reg h f = (reg, Inl InvalidHandle)
         \<and> AbstractState_update reg h pair v1 v2 = (reg, Inl InvalidHandle)
         \<and> AbstractState_keyed_output reg h key = (reg, Inl InvalidHandle)
         \<and> update_and_outputs reg h pair keys value1 value2 len = (reg, Some InvalidHandle, []))"
  using lookup_invalid [OF run_invalid [OF assms]]
  by (simp add: Let_def AbstractState_free_def handle_operation_def AbstractState_update_def
      AbstractState_keyed_output_def update_and_outputs_def)

lemma example_run:
  "snd (run example_engine empty_registry example_calls) =
     [Issued 0, Returned (), Released, Failed InvalidHandle, Issued 1]"
  by (simp add: example_calls_def example_engine_def empty_registry_def AbstractState_factory_def
      AbstractState_free_def handle_operation_def lookup_def update_def flash_def example_backend_def
      valid_inputs_def new_object_def)

theorem invalid_handle_rejected_witness:
  "0 \<in> set (released example_calls (snd (run example_engine empty_registry example_calls)))
   \<and> 7 \<notin> set (issued (snd (run example_engine empty_registry example_calls)))
   \<and> (let reg = fst (run example_engine empty_registry example_calls) in
       AbstractState_free reg 0 = (reg, Inl InvalidHandle)
     \<and> AbstractState_update reg 0 0 (Finite 300) (Finite 2400) = (reg, Inl InvalidHandle)
     \<and> AbstractState_keyed_output reg 7 2 = (reg, Inl InvalidHandle))"
proof -
  have a: "0 \<in> set (released example_calls (snd (run example_engine empty_registry example_calls)))"
    unfolding example_run by (simp add: example_calls_def)
  have b: "7 \<notin> set (issued (snd (run example_engine empty_registry example_calls)))"
    unfolding example_run by simp
  have "0 \<notin> set (issued (snd (run example_engine empty_registry example_calls)))
      \<or> 0 \<in> set (released example_calls (snd (run example_engine empty_registry example_calls)))"
    using a by simp
  note released_handle = invalid_handle_rejected
    [OF this, where pair = 0 and ?v1.0 = "Finite 300" and ?v2.0 = "Finite 2400"]
  have "7 \<notin> set (issued (snd (run example_engine empty_registry example_calls)))
      \<or> 7 \<in> set (released example_calls (snd (run example_engine empty_registry example_calls)))"
    using b by simp
  note unknown_handle = invalid_handle_rejected [OF this, where key = 2]
  from a b released_handle unknown_handle show ?thesis
    unfolding Let_def by blast
qed

subsection \<open>Batches\<close>

lemma flash_same_setup:
  assumes "same_setup a b"
  shows "flash b pair v1 v2 = flash a pair v1 v2"
proof -
  from assms have e: "eos b = eos a" "composition b = composition a"
      "specified_phase b = specified_phase a"
    by (simp_all add: same_setup_def)
  show ?thesis unfolding flash_def e ..
qed

lemma keyed_output_cong:
  assumes "eos b = eos a" "composition b = composition a" "equilibrium b = equilibrium a"
  shows "keyed_output key b = keyed_output key a"
  unfolding keyed_output_def assms ..

lemma keyed_outputs_cong:
  assumes "eos b = eos a" "composition b = composition a" "equilibrium b = equilibrium a"
  shows "keyed_outputs keys b = keyed_outputs keys a"
  by (induction keys) (simp_all add: keyed_output_cong [OF assms] split: sum.splits)

lemma update_then_outputs_same_setup:
  assumes "same_setup a b"
  shows "snd (update_then_outputs pair keys v b) = snd (update_then_outputs pair keys v a)"
    and "same_setup a (fst (update_then_outputs pair keys v b))"
proof -
  have f: "flash b pair (fst v) (snd v) = flash a pair (fst v) (snd v)"
    using assms by (rule flash_same_setup)
  show "snd (update_then_outputs pair keys v b) = snd (update_then_outputs pair keys v a)"
  proof (cases "flash a pair (fst v) (snd v)")
    case (Inl e)
    with f show ?thesis by (simp add: update_then_outputs_def update_def)
  next
    case (Inr eq)
    have "keyed_outputs keys (b\<lparr>equilibrium := Some eq\<rparr>) = keyed_outputs keys (a\<lparr>equilibrium := Some eq\<rparr>)"
      using assms by (intro keyed_outputs_cong) (simp_all add: same_setup_def)
    with f Inr show ?thesis by (simp add: update_then_outputs_def update_def)
  qed
  show "same_setup a (fst (update_then_outputs pair keys v b))"
    using assms
    by (cases "flash b pair (fst v) (snd v)")
       (simp_all add: update_then_outputs_def update_def same_setup_def)
qed

lemma update_entries_independent:
  "same_setup a b \<Longrightarrow> snd (update_entries pair keys vs b) = independent_entries pair keys vs a"
proof (induction vs arbitrary: b)
  case Nil
  then show ?case by (simp add: independent_entries_def)
next
  case (Cons v vs)
  obtain b1 r where s: "update_then_outputs pair keys v b = (b1, r)"
    by (cases "update_then_outputs pair keys v b")
  have r: "r = snd (update_then_outputs pair keys v a)"
    using update_then_outputs_same_setup(1) [OF Cons.prems, of pair keys v] s by simp
  have "same_setup a b1"
    using update_then_outputs_same_setup(2) [OF Cons.prems, of pair keys v] s by simp
  from Cons.IH [OF this] s r show ?case
    by (cases "update_entries pair keys vs b1") (simp add: independent_entries_def)
qed

lemma update_and_outputs_independent:
  assumes "objects reg h = Some obj" and "same_setup alone obj"
  shows "snd (update_and_outputs reg h pair keys value1 value2 len) =
    (first_error
       (independent_entries pair keys (zip (take (nat len) value1) (take (nat len) value2)) alone),
     independent_entries pair keys (zip (take (nat len) value1) (take (nat len) value2)) alone)"
proof -
  from update_entries_independent
    [OF assms(2), of pair keys "zip (take (nat len) value1) (take (nat len) value2)"]
  show ?thesis using assms(1)
    by (cases "update_entries pair keys (zip (take (nat len) value1) (take (nat len) value2)) obj")
       (auto simp: update_and_outputs_def handle_operation_def lookup_def)
qed

text \<open>
  Claim C5. On a live handle, each of the three batch calls processes every entry it is
  given: its entries are, in the order of the inputs, what each entry yields alone, as a
  single update followed by the keyed outputs, a list of results or an error marker.
  "Alone" is on any object \<open>alone\<close> of the same backend, composition and phase
  specification as the handle's object, whatever state either is in (the handle's object
  as it was before the call, or a fresh one). A failing entry therefore neither stops the
  entries after it nor changes what they yield, and the overall error code is the first
  marker among the entries (none when no entry fails).
\<close>

theorem batch_entries_independent:
  assumes "objects reg h = Some obj" and "same_setup alone obj"
  shows "(let vs = zip (take (nat len) value1) (take (nat len) value2) in
      snd (AbstractState_update_and_1_out reg h pair value1 value2 len output) =
        (first_error (independent_entries pair [output] vs alone),
         independent_entries pair [output] vs alone)
    \<and> snd (AbstractState_update_and_5_out reg h pair value1 value2 len outputs) =
        (first_error (independent_entries pair (take 5 outputs) vs alone),
         independent_entries pair (take 5 outputs) vs alone)
    \<and> snd (AbstractState_update_and_common_out get_param_index reg h pair value1 value2 len) =
        (first_error (independent_entries pair
            (map get_param_index [''T'', ''p'', ''rhomolar'', ''hmolar'', ''smolar'']) vs alone),
         independent_entries pair
            (map get_param_index [''T'', ''p'', ''rhomolar'', ''hmolar'', ''smolar'']) vs alone))"
  unfolding Let_def AbstractState_update_and_1_out_def AbstractState_update_and_5_out_def
    AbstractState_update_and_common_out_def
  using update_and_outputs_independent [OF assms] by blast

theorem batch_entries_independent_witness:
  "objects example_registry 0 =
      Some (new_object example_backend \<lparr>names = [''Water''], fractions = [1]\<rparr>)
   \<and> same_setup example_converged
        (new_object example_backend \<lparr>names = [''Water''], fractions = [1]\<rparr>)
   \<and> snd (AbstractState_update_and_1_out example_registry 0 0
        [Finite 300, NaN, Finite 400, Finite 5] [Finite 2400, Finite 1, Finite 6400, PosInf] 3 2)
      = (Some InvalidInput, [Inr [1], Inl InvalidInput, Inr [2]])
   \<and> snd (AbstractState_update_and_5_out example_registry 0 1
        [Finite 4, Finite 100, Finite (- 1), Finite 2] [Finite 7, Finite 7, Finite 7, Finite 7] 4
        [0, 1, 2, 1, 0])
      = (Some ConvergenceFailure,
         [Inr [4, 7, 1, 7, 4], Inl ConvergenceFailure, Inl InvalidInput, Inr [2, 7, 1, 7, 2]])"
proof -
  have a: "objects example_registry 0 =
      Some (new_object example_backend \<lparr>names = [''Water''], fractions = [1]\<rparr>)"
    by (simp add: example_registry_def example_engine_def empty_registry_def
        AbstractState_factory_def)
  have s4: "solve example_backend 0 (4, 7, 4) = Inr (4, 7, 1)"
    by (simp add: solve.simps example_backend_def)
  have s100: "solve example_backend 0 (100, 7, 100) = Inl ConvergenceFailure"
    by (simp add: solve.simps example_backend_def)
  have s2: "solve example_backend 0 (2, 7, 2) = Inr (2, 7, 1)"
    by (simp add: solve.simps example_backend_def)
  have sel: "strategy_of example_backend 1 = Some SinglePhaseRootFind"
    "strategy_of example_backend 0 = Some DirectEvaluation"
    "needs_positive example_backend = (\<lambda>pair. (True, True))"
    "initial example_backend = (\<lambda>st c ph pair x y. (x, y, x))"
    by (simp_all add: example_backend_def)
  have out: "converged_state example_backend (x, y, r) =
      \<lparr>temperature = x, pressure = y, molar_density = r, phase_label = ''gas'',
       quality = None, phase_compositions = None\<rparr>"
    "evaluate example_backend c pair t p =
      \<lparr>temperature = t, pressure = p, molar_density = p / (8 * t), phase_label = ''gas'',
       quality = None, phase_compositions = None\<rparr>"
    "property example_backend c eq key =
      (if key = 0 then Inr (temperature eq)
       else if key = 1 then Inr (pressure eq)
       else if key = 2 then Inr (molar_density eq)
       else Inl UnsupportedParameter)"
    for x y r c pair t p eq key
    by (simp_all add: example_backend_def)
  have b: "same_setup example_converged
      (new_object example_backend \<lparr>names = [''Water''], fractions = [1]\<rparr>)"
    by (simp add: same_setup_def example_converged_def new_object_def)
  have c: "eos example_converged = example_backend"
    "composition example_converged = \<lparr>names = [''Water''], fractions = [1]\<rparr>"
    "specified_phase example_converged = None"
    by (simp_all add: example_converged_def new_object_def)
  from batch_entries_independent [OF a b, of 3 "[Finite 300, NaN, Finite 400, Finite 5]"
      "[Finite 2400, Finite 1, Finite 6400, PosInf]" 0 2]
    batch_entries_independent [OF a b, of 4 "[Finite 4, Finite 100, Finite (- 1), Finite 2]"
      "[Finite 7, Finite 7, Finite 7, Finite 7]" 1 _ "[0, 1, 2, 1, 0]"]
  show ?thesis
    using a b
    by (simp add: Let_def independent_entries_def update_then_outputs_def update_def flash_def
        valid_inputs_def keyed_output_def s4 s100 s2 sel out c)
qed

end
